theory Spec2Isabelle
  imports Complex_Main "HOL-Library.AList" "HOL-Library.Char_ord" "HOL-Library.Sublist"
begin

section \<open>JavaScript numbers\<close>

text \<open>
  Every number of the program is a JavaScript \<^verbatim>\<open>number\<close>. The model keeps the three
  non-finite values apart from the finite ones, because the engine divides by a route
  length that may be zero. Finite values are exact reals: the rounding of doubles, their
  overflow to an infinity and the sign of zero are not modelled (a zero divisor acts as
  \<^verbatim>\<open>+0\<close>). The general statements below do not rest on the arithmetic of finite
  values. The evaluations are on inputs where doubles give the same progress and state;
  only the progress 0.989 of the threshold example is one unit in the last place below
  the double that the program computes.
\<close>

datatype jsnum = Fin real | PosInf | NegInf | NaN

fun sign_of :: "jsnum \<Rightarrow> real" where
  "sign_of (Fin a) = sgn a"
| "sign_of PosInf = 1"
| "sign_of NegInf = - 1"
| "sign_of NaN = 0"

definition inf_of_sign :: "real \<Rightarrow> jsnum" where
  "inf_of_sign s = (if 0 < s then PosInf else if s < 0 then NegInf else NaN)"

text \<open>\<^verbatim>\<open>x * y\<close>: zero times an infinity is NaN.\<close>

fun js_mul :: "jsnum \<Rightarrow> jsnum \<Rightarrow> jsnum" where
  "js_mul NaN y = NaN"
| "js_mul x NaN = NaN"
| "js_mul (Fin a) (Fin b) = Fin (a * b)"
| "js_mul x y = inf_of_sign (sign_of x * sign_of y)"

text \<open>\<^verbatim>\<open>x / y\<close>: a non-zero value over zero is an infinity, zero over zero is NaN.\<close>

fun js_div :: "jsnum \<Rightarrow> jsnum \<Rightarrow> jsnum" where
  "js_div NaN y = NaN"
| "js_div x NaN = NaN"
| "js_div (Fin a) (Fin b) = (if b = 0 then inf_of_sign (sgn a) else Fin (a / b))"
| "js_div (Fin a) y = Fin 0"
| "js_div x (Fin b) = inf_of_sign (sign_of x * (if b < 0 then - 1 else 1))"
| "js_div x y = NaN"

fun js_add :: "jsnum \<Rightarrow> jsnum \<Rightarrow> jsnum" where
  "js_add NaN y = NaN"
| "js_add x NaN = NaN"
| "js_add (Fin a) (Fin b) = Fin (a + b)"
| "js_add (Fin a) y = y"
| "js_add x (Fin b) = x"
| "js_add x y = (if x = y then x else NaN)"

fun js_neg :: "jsnum \<Rightarrow> jsnum" where
  "js_neg (Fin a) = Fin (- a)"
| "js_neg PosInf = NegInf"
| "js_neg NegInf = PosInf"
| "js_neg NaN = NaN"

definition js_sub :: "jsnum \<Rightarrow> jsnum \<Rightarrow> jsnum" where
  "js_sub x y = js_add x (js_neg y)"

text \<open>\<^verbatim>\<open>x >= y\<close>: false as soon as one side is NaN.\<close>

fun js_ge :: "jsnum \<Rightarrow> jsnum \<Rightarrow> bool" where
  "js_ge NaN y = False"
| "js_ge x NaN = False"
| "js_ge (Fin a) (Fin b) = (b \<le> a)"
| "js_ge PosInf y = True"
| "js_ge x NegInf = True"
| "js_ge x y = False"

text \<open>\<^verbatim>\<open>Math.min(x, y)\<close>: NaN as soon as one argument is NaN.\<close>

fun js_min :: "jsnum \<Rightarrow> jsnum \<Rightarrow> jsnum" where
  "js_min NaN y = NaN"
| "js_min x NaN = NaN"
| "js_min x y = (if js_ge y x then x else y)"

text \<open>
  A \<^verbatim>\<open>Date\<close> holds a time value in milliseconds, NaN for an invalid date.
  \<^verbatim>\<open>new Date(v)\<close> clips \<^verbatim>\<open>v\<close> (TimeClip of the language standard); \<^verbatim>\<open>new Date()\<close> and
  \<^verbatim>\<open>Date.now()\<close> read the clock, which the model receives as the argument \<open>now\<close>.
\<close>

datatype date = Date jsnum

fun time_clip :: "jsnum \<Rightarrow> jsnum" where
  "time_clip (Fin t) =
     (if 8640000000000000 < \<bar>t\<bar> then NaN
      else Fin (of_int (if 0 \<le> t then \<lfloor>t\<rfloor> else \<lceil>t\<rceil>)))"
| "time_clip x = NaN"

definition new_Date :: "jsnum \<Rightarrow> date" where
  "new_Date v = Date (time_clip v)"

section \<open>Data model\<close>

record Position =
  lat :: jsnum
  lng :: jsnum

datatype ParcelState = PLANNED | TRANSIT | INCIDENT | DELIVERED

datatype IncidentType = ROAD_CLOSURE | TRAFFIC | VEHICLE_BREAKDOWN | WEATHER

record GeoPointResponse =
  hub_id :: string
  address :: string
  latitude :: jsnum
  longitude :: jsnum
  hub_type :: string

record ParcelResponse =
  data_id :: string
  data_trackingCode :: string
  currentState :: string
  pickupLocation :: string
  deliveryLocation :: string
  senderName :: "string option"
  recipientName :: "string option"
  weightKg :: "jsnum option"

record RouteResponse =
  route_id :: string
  routeGeometry :: string
  totalDistanceKm :: jsnum
  estimatedDurationMin :: jsnum

record Incident =
  incident_id :: string
  incident_type :: IncidentType
  position :: Position
  radius :: jsnum
  affectedRouteIds :: "string list"
  timestamp :: date
  resolved :: bool
  description :: string

record SimulatedParcel =
  parcel_id :: string
  trackingCode :: string
  parcelData :: ParcelResponse
  route :: "RouteResponse option"
  routePath :: "Position list"
  currentPosition :: Position
  state :: ParcelState
  progress :: jsnum
  pathIndex :: jsnum
  startTime :: "date option"
  estimatedArrival :: "date option"
  actualArrival :: "date option"
  speed :: jsnum
  affectedByIncidents :: "string list"

text \<open>
  A JavaScript \<^verbatim>\<open>Map\<close> keeps its entries in insertion order: an association list,
  where \<^verbatim>\<open>set\<close> replaces the value of a present key in place and appends a new key
  at the end (\<^const>\<open>AList.update\<close>), \<^verbatim>\<open>get\<close> is \<^const>\<open>map_of\<close>, \<^verbatim>\<open>delete\<close> is
  \<^const>\<open>AList.delete\<close>, and \<^verbatim>\<open>values()\<close> lists the values in order. The keys of a
  \<^verbatim>\<open>Map\<close> are distinct, and these operations keep them so.
\<close>

type_synonym 'v js_map = "(string \<times> 'v) list"

definition map_values :: "'v js_map \<Rightarrow> 'v list" where
  "map_values m = map snd m"

section \<open>Simulation engine\<close>

text \<open>
  \<^verbatim>\<open>interpolateAlongPath\<close> and \<^verbatim>\<open>isWithinRadius\<close> belong to the module
  \<^verbatim>\<open>wkt-parser\<close>, which this development does not model. The engine functions take
  them as arguments, so every statement below holds whatever they compute.
\<close>

type_synonym interpolate = "Position list \<Rightarrow> jsnum \<Rightarrow> Position \<times> jsnum"
type_synonym within_radius = "Position \<Rightarrow> Position \<Rightarrow> jsnum \<Rightarrow> bool"

definition BASE_SPEED :: jsnum where
  "BASE_SPEED = Fin 40"

definition updateParcelPosition ::
  "interpolate \<Rightarrow> jsnum \<Rightarrow> SimulatedParcel \<Rightarrow> jsnum \<Rightarrow> jsnum \<Rightarrow> SimulatedParcel" where
  "updateParcelPosition interpolateAlongPath now parcel deltaTimeMs simulationSpeed =
     (if state parcel \<noteq> TRANSIT \<or> route parcel = None \<or> length (routePath parcel) = 0
      then parcel
      else case route parcel of
        None \<Rightarrow> parcel
      | Some parcel_route \<Rightarrow>
         (let actualSpeed = js_mul (speed parcel) simulationSpeed;
              hoursElapsed = js_div (js_div (js_div deltaTimeMs (Fin 1000)) (Fin 60)) (Fin 60);
              distanceTraveledKm = js_mul actualSpeed hoursElapsed;
              totalDistance = totalDistanceKm parcel_route;
              progressIncrement = js_div distanceTraveledKm totalDistance;
              newProgress = js_min (js_add (progress parcel) progressIncrement) (Fin 1);
              (newPosition, segmentIndex) = interpolateAlongPath (routePath parcel) newProgress;
              isDelivered = js_ge newProgress (Fin 0.99)
          in parcel\<lparr>currentPosition := newPosition,
                    progress := newProgress,
                    pathIndex := segmentIndex,
                    state := (if isDelivered then DELIVERED else state parcel),
                    actualArrival := (if isDelivered then Some (Date now) else actualArrival parcel)\<rparr>))"

fun checkIncidentCollision_loop ::
  "within_radius \<Rightarrow> SimulatedParcel \<Rightarrow> Incident list \<Rightarrow> Incident option" where
  "checkIncidentCollision_loop isWithinRadius parcel [] = None"
| "checkIncidentCollision_loop isWithinRadius parcel (incident # rest) =
     (if resolved incident then checkIncidentCollision_loop isWithinRadius parcel rest
      else
        (let isAffected = isWithinRadius (currentPosition parcel) (position incident)
                            (js_div (radius incident) (Fin 1000))
         in if isAffected \<and> incident_id incident \<notin> set (affectedByIncidents parcel)
            then Some incident
            else checkIncidentCollision_loop isWithinRadius parcel rest))"

definition checkIncidentCollision ::
  "within_radius \<Rightarrow> SimulatedParcel \<Rightarrow> Incident js_map \<Rightarrow> Incident option" where
  "checkIncidentCollision isWithinRadius parcel incidents =
     checkIncidentCollision_loop isWithinRadius parcel (map_values incidents)"

definition createSimulatedParcel ::
  "jsnum \<Rightarrow> ParcelResponse \<Rightarrow> RouteResponse \<Rightarrow> Position list \<Rightarrow> SimulatedParcel" where
  "createSimulatedParcel now pdata parcel_route path =
     (let estimated = new_Date (js_add now
            (js_mul (js_mul (estimatedDurationMin parcel_route) (Fin 60)) (Fin 1000)))
      in \<lparr>parcel_id = data_id pdata,
          trackingCode = data_trackingCode pdata,
          parcelData = pdata,
          route = Some parcel_route,
          routePath = path,
          currentPosition = (case path of [] \<Rightarrow> \<lparr>lat = Fin 0, lng = Fin 0\<rparr> | first # _ \<Rightarrow> first),
          state = PLANNED,
          progress = Fin 0,
          pathIndex = Fin 0,
          startTime = None,
          estimatedArrival = Some estimated,
          actualArrival = None,
          speed = BASE_SPEED,
          affectedByIncidents = []\<rparr>)"

definition startParcel :: "jsnum \<Rightarrow> SimulatedParcel \<Rightarrow> SimulatedParcel" where
  "startParcel now parcel = parcel\<lparr>state := TRANSIT, startTime := Some (Date now)\<rparr>"

definition updateParcelRoute ::
  "interpolate \<Rightarrow> jsnum \<Rightarrow> SimulatedParcel \<Rightarrow> RouteResponse \<Rightarrow> Position list \<Rightarrow> SimulatedParcel" where
  "updateParcelRoute interpolateAlongPath now parcel newRoute newRoutePath =
     (let (newPosition, segmentIndex) = interpolateAlongPath newRoutePath (progress parcel)
      in parcel\<lparr>route := Some newRoute,
                routePath := newRoutePath,
                currentPosition := newPosition,
                state := TRANSIT,
                estimatedArrival := Some (new_Date (js_add now
                    (js_mul (js_mul (estimatedDurationMin newRoute) (Fin 60)) (Fin 1000))))\<rparr>)"

definition markParcelIncident :: "SimulatedParcel \<Rightarrow> string \<Rightarrow> SimulatedParcel" where
  "markParcelIncident parcel incidentId =
     parcel\<lparr>state := INCIDENT,
            affectedByIncidents := affectedByIncidents parcel @ [incidentId]\<rparr>"

section \<open>State store\<close>

record SimulationState =
  parcels :: "SimulatedParcel js_map"
  incidents :: "Incident js_map"
  hubs :: "GeoPointResponse list"
  isPlaying :: bool
  store_speed :: jsnum
  incidentPlacementMode :: bool
  selectedIncidentType :: "IncidentType option"
  selectedParcelId :: "string option"

text \<open>
  \<^verbatim>\<open>Partial<SimulatedParcel>\<close>: every field may be absent. The spread
  \<^verbatim>\<open>{ ...existing, ...updates }\<close> takes each field from \<^verbatim>\<open>updates\<close> when it is there.
\<close>

record ParcelUpdates =
  u_parcel_id :: "string option"
  u_trackingCode :: "string option"
  u_parcelData :: "ParcelResponse option"
  u_route :: "RouteResponse option option"
  u_routePath :: "Position list option"
  u_currentPosition :: "Position option"
  u_state :: "ParcelState option"
  u_progress :: "jsnum option"
  u_pathIndex :: "jsnum option"
  u_startTime :: "date option option"
  u_estimatedArrival :: "date option option"
  u_actualArrival :: "date option option"
  u_speed :: "jsnum option"
  u_affectedByIncidents :: "string list option"

definition spread_field :: "'a \<Rightarrow> 'a option \<Rightarrow> 'a" where
  "spread_field old new = (case new of None \<Rightarrow> old | Some v \<Rightarrow> v)"

definition spread :: "SimulatedParcel \<Rightarrow> ParcelUpdates \<Rightarrow> SimulatedParcel" where
  "spread existing updates =
     \<lparr>parcel_id = spread_field (parcel_id existing) (u_parcel_id updates),
      trackingCode = spread_field (trackingCode existing) (u_trackingCode updates),
      parcelData = spread_field (parcelData existing) (u_parcelData updates),
      route = spread_field (route existing) (u_route updates),
      routePath = spread_field (routePath existing) (u_routePath updates),
      currentPosition = spread_field (currentPosition existing) (u_currentPosition updates),
      state = spread_field (state existing) (u_state updates),
      progress = spread_field (progress existing) (u_progress updates),
      pathIndex = spread_field (pathIndex existing) (u_pathIndex updates),
      startTime = spread_field (startTime existing) (u_startTime updates),
      estimatedArrival = spread_field (estimatedArrival existing) (u_estimatedArrival updates),
      actualArrival = spread_field (actualArrival existing) (u_actualArrival updates),
      speed = spread_field (speed existing) (u_speed updates),
      affectedByIncidents =
        spread_field (affectedByIncidents existing) (u_affectedByIncidents updates)\<rparr>"

text \<open>A whole parcel passed where \<^verbatim>\<open>Partial<SimulatedParcel>\<close> is expected.\<close>

definition all_fields :: "SimulatedParcel \<Rightarrow> ParcelUpdates" where
  "all_fields p =
     \<lparr>u_parcel_id = Some (parcel_id p),
      u_trackingCode = Some (trackingCode p),
      u_parcelData = Some (parcelData p),
      u_route = Some (route p),
      u_routePath = Some (routePath p),
      u_currentPosition = Some (currentPosition p),
      u_state = Some (state p),
      u_progress = Some (progress p),
      u_pathIndex = Some (pathIndex p),
      u_startTime = Some (startTime p),
      u_estimatedArrival = Some (estimatedArrival p),
      u_actualArrival = Some (actualArrival p),
      u_speed = Some (speed p),
      u_affectedByIncidents = Some (affectedByIncidents p)\<rparr>"

datatype SimulationAction =
    SET_HUBS "GeoPointResponse list"
  | ADD_PARCEL SimulatedParcel
  | UPDATE_PARCEL string ParcelUpdates
  | REMOVE_PARCEL string
  | ADD_INCIDENT Incident
  | RESOLVE_INCIDENT string
  | PLAY
  | PAUSE
  | SET_SPEED jsnum
  | TOGGLE_INCIDENT_MODE bool "IncidentType option"
  | SELECT_PARCEL "string option"
  | UPDATE_ALL_PARCELS "SimulatedParcel js_map"

definition initialState :: SimulationState where
  "initialState =
     \<lparr>parcels = [], incidents = [], hubs = [], isPlaying = False, store_speed = Fin 1,
      incidentPlacementMode = False, selectedIncidentType = None, selectedParcelId = None\<rparr>"

fun simulationReducer :: "SimulationState \<Rightarrow> SimulationAction \<Rightarrow> SimulationState" where
  "simulationReducer st (SET_HUBS payload) = st\<lparr>hubs := payload\<rparr>"
| "simulationReducer st (ADD_PARCEL payload) =
     (let newParcels = AList.update (parcel_id payload) payload (parcels st)
      in st\<lparr>parcels := newParcels\<rparr>)"
| "simulationReducer st (UPDATE_PARCEL ident updates) =
     (let newParcels =
        (case map_of (parcels st) ident of
           Some existing \<Rightarrow> AList.update ident (spread existing updates) (parcels st)
         | None \<Rightarrow> parcels st)
      in st\<lparr>parcels := newParcels\<rparr>)"
| "simulationReducer st (REMOVE_PARCEL payload) =
     (let newParcels = AList.delete payload (parcels st)
      in st\<lparr>parcels := newParcels\<rparr>)"
| "simulationReducer st (ADD_INCIDENT payload) =
     (let newIncidents = AList.update (incident_id payload) payload (incidents st)
      in st\<lparr>incidents := newIncidents\<rparr>)"
| "simulationReducer st (RESOLVE_INCIDENT payload) =
     (let newIncidents =
        (case map_of (incidents st) payload of
           Some incident \<Rightarrow> AList.update payload (incident\<lparr>resolved := True\<rparr>) (incidents st)
         | None \<Rightarrow> incidents st)
      in st\<lparr>incidents := newIncidents\<rparr>)"
| "simulationReducer st PLAY = st\<lparr>isPlaying := True\<rparr>"
| "simulationReducer st PAUSE = st\<lparr>isPlaying := False\<rparr>"
| "simulationReducer st (SET_SPEED payload) = st\<lparr>store_speed := payload\<rparr>"
| "simulationReducer st (TOGGLE_INCIDENT_MODE active ty) =
     st\<lparr>incidentPlacementMode := active, selectedIncidentType := ty\<rparr>"
| "simulationReducer st (SELECT_PARCEL payload) = st\<lparr>selectedParcelId := payload\<rparr>"
| "simulationReducer st (UPDATE_ALL_PARCELS payload) = st\<lparr>parcels := payload\<rparr>"

section \<open>The hook: user actions and the simulation loop\<close>

text \<open>
  A handler of the hook reads the current store, dispatches actions and shows toasts.
  Its model returns what it dispatched, what it showed and the recalculations it
  started; \<open>run\<close> applies the dispatched actions to the store in order. The texts of the
  toasts are not modelled, only which one is shown.
\<close>

datatype toast =
    Error_geometry_missing
  | Error_geometry_format
  | Error_wkt_parsing_failed
  | Error_fewer_than_2_points
  | Error_recalculation_failed string
  | Success_delivery_started string
  | Success_route_recalculated string
  | Loading_recalculation string

fun is_error :: "toast \<Rightarrow> bool" where
  "is_error Error_geometry_missing = True"
| "is_error Error_geometry_format = True"
| "is_error Error_wkt_parsing_failed = True"
| "is_error Error_fewer_than_2_points = True"
| "is_error (Error_recalculation_failed _) = True"
| "is_error _ = False"

record effects =
  dispatched :: "SimulationAction list"
  toasts :: "toast list"
  recalculations :: "(SimulatedParcel \<times> Incident) list"

definition run :: "SimulationState \<Rightarrow> effects \<Rightarrow> SimulationState" where
  "run st e = foldl simulationReducer st (dispatched e)"

text \<open>
  \<^verbatim>\<open>String.prototype.toUpperCase\<close>, on the letters of ASCII. A string is a list of
  bytes here and a letter outside ASCII stays as it is, whereas JavaScript maps a few of
  them to ASCII capitals (the dotless i to \<^verbatim>\<open>I\<close>): a geometry that passes the format
  check of \<^verbatim>\<open>addParcel\<close> through such a letter only is turned away by the model.
\<close>

definition toUpperCase :: "string \<Rightarrow> string" where
  "toUpperCase s =
     map (\<lambda>c. if CHR ''a'' \<le> c \<and> c \<le> CHR ''z'' then char_of (of_char c - (32::nat)) else c) s"

definition string_includes :: "string \<Rightarrow> string \<Rightarrow> bool" where
  "string_includes s searchString = sublist searchString s"

text \<open>
  \<^verbatim>\<open>parseWKTLineString\<close> is the geometry decoder of \<^verbatim>\<open>wkt-parser\<close>, an argument here
  as well. The two readings of the clock in the routed branch are one \<open>now\<close>.
\<close>

definition addParcel ::
  "(string \<Rightarrow> Position list) \<Rightarrow> jsnum \<Rightarrow> SimulationState \<Rightarrow> ParcelResponse
     \<Rightarrow> RouteResponse option \<Rightarrow> effects" where
  "addParcel parseWKTLineString now st pdata new_route =
     (case new_route of
        Some r \<Rightarrow>
          if routeGeometry r = []
          then \<lparr>dispatched = [], toasts = [Error_geometry_missing], recalculations = []\<rparr>
          else if \<not> string_includes (toUpperCase (routeGeometry r)) ''LINESTRING''
          then \<lparr>dispatched = [], toasts = [Error_geometry_format], recalculations = []\<rparr>
          else
            (let path = parseWKTLineString (routeGeometry r) in
             if length path = 0
             then \<lparr>dispatched = [], toasts = [Error_wkt_parsing_failed], recalculations = []\<rparr>
             else if length path < 2
             then \<lparr>dispatched = [], toasts = [Error_fewer_than_2_points], recalculations = []\<rparr>
             else
               (let simulatedParcel = createSimulatedParcel now pdata r path;
                    simulatedParcel = simulatedParcel\<lparr>state := TRANSIT\<rparr>;
                    simulatedParcel = simulatedParcel\<lparr>startTime := Some (Date now)\<rparr>
                in \<lparr>dispatched = [ADD_PARCEL simulatedParcel],
                    toasts = [Success_delivery_started (data_trackingCode pdata)],
                    recalculations = []\<rparr>))
      | None \<Rightarrow>
          (let startPos =
             (case find (\<lambda>h. hub_id h = pickupLocation pdata) (hubs st) of
                Some pickupHub \<Rightarrow> \<lparr>lat = latitude pickupHub, lng = longitude pickupHub\<rparr>
              | None \<Rightarrow> \<lparr>lat = Fin 4.05, lng = Fin 9.7\<rparr>);
               simulatedParcel =
                 \<lparr>parcel_id = data_id pdata,
                  trackingCode = data_trackingCode pdata,
                  parcelData = pdata,
                  route = None,
                  routePath = [],
                  currentPosition = startPos,
                  state = PLANNED,
                  progress = Fin 0,
                  pathIndex = Fin 0,
                  startTime = None,
                  estimatedArrival = None,
                  actualArrival = None,
                  speed = Fin 30,
                  affectedByIncidents = []\<rparr>
           in \<lparr>dispatched = [ADD_PARCEL simulatedParcel], toasts = [], recalculations = []\<rparr>))"

text \<open>The hook's \<^verbatim>\<open>startParcel(parcelId)\<close>, which wraps the engine's function.\<close>

definition useSimulation_startParcel :: "jsnum \<Rightarrow> SimulationState \<Rightarrow> string \<Rightarrow> effects" where
  "useSimulation_startParcel now st parcelId =
     (case map_of (parcels st) parcelId of
        None \<Rightarrow> \<lparr>dispatched = [], toasts = [], recalculations = []\<rparr>
      | Some parcel \<Rightarrow>
          (let started = startParcel now parcel
           in \<lparr>dispatched = [UPDATE_PARCEL parcelId (all_fields started)],
               toasts = [Success_delivery_started (trackingCode parcel)],
               recalculations = []\<rparr>))"

text \<open>
  \<^verbatim>\<open>handleIncidentRecalculation\<close> run to its end: \<open>answer\<close> is what the route service
  returned, \<open>None\<close> when the request failed.
\<close>

definition handleIncidentRecalculation ::
  "(string \<Rightarrow> Position list) \<Rightarrow> interpolate \<Rightarrow> jsnum \<Rightarrow> SimulatedParcel \<Rightarrow> Incident
     \<Rightarrow> RouteResponse option \<Rightarrow> effects" where
  "handleIncidentRecalculation parseWKTLineString interpolateAlongPath now parcel incident answer =
     (if route parcel = None
      then \<lparr>dispatched = [], toasts = [], recalculations = []\<rparr>
      else case answer of
        None \<Rightarrow>
          \<lparr>dispatched = [],
           toasts = [Loading_recalculation (parcel_id parcel),
                     Error_recalculation_failed (parcel_id parcel)],
           recalculations = []\<rparr>
      | Some newRoute \<Rightarrow>
          (let newRoutePath = parseWKTLineString (routeGeometry newRoute);
               updated = updateParcelRoute interpolateAlongPath now parcel newRoute newRoutePath
           in \<lparr>dispatched = [UPDATE_PARCEL (parcel_id parcel) (all_fields updated)],
               toasts = [Loading_recalculation (parcel_id parcel),
                         Success_route_recalculated (parcel_id parcel)],
               recalculations = []\<rparr>))"

text \<open>
  One pass of \<^verbatim>\<open>simulationLoop\<close> over the entries of the copied map. The test
  \<^verbatim>\<open>updated !== parcel\<close> compares references: \<^verbatim>\<open>updateParcelPosition\<close> hands back its
  argument exactly when it takes its early return. An entry is visited once and
  \<^verbatim>\<open>set\<close> only touches the key being visited, so the loop sees the entries of the store.
\<close>

record loop_state =
  updatedParcels :: "SimulatedParcel js_map"
  hasChanges :: bool
  started :: "(SimulatedParcel \<times> Incident) list"

fun simulationLoop_entries ::
  "interpolate \<Rightarrow> within_radius \<Rightarrow> jsnum \<Rightarrow> jsnum \<Rightarrow> SimulationState
     \<Rightarrow> (string \<times> SimulatedParcel) list \<Rightarrow> loop_state \<Rightarrow> loop_state" where
  "simulationLoop_entries ip wr now deltaTimeMs st [] acc = acc"
| "simulationLoop_entries ip wr now deltaTimeMs st ((ident, parcel) # rest) acc =
     (if state parcel = TRANSIT then
        (let updated = updateParcelPosition ip now parcel deltaTimeMs (store_speed st) in
         case checkIncidentCollision wr updated (incidents st) of
           Some collidingIncident \<Rightarrow>
             (let markedParcel = markParcelIncident updated (incident_id collidingIncident)
              in simulationLoop_entries ip wr now deltaTimeMs st rest
                   (acc\<lparr>updatedParcels := AList.update ident markedParcel (updatedParcels acc),
                        hasChanges := True,
                        started := started acc @ [(markedParcel, collidingIncident)]\<rparr>))
         | None \<Rightarrow>
             if \<not> (state parcel \<noteq> TRANSIT \<or> route parcel = None \<or> length (routePath parcel) = 0)
             then simulationLoop_entries ip wr now deltaTimeMs st rest
                    (acc\<lparr>updatedParcels := AList.update ident updated (updatedParcels acc),
                         hasChanges := True\<rparr>)
             else simulationLoop_entries ip wr now deltaTimeMs st rest acc)
      else simulationLoop_entries ip wr now deltaTimeMs st rest acc)"

definition simulationLoop ::
  "interpolate \<Rightarrow> within_radius \<Rightarrow> jsnum \<Rightarrow> jsnum \<Rightarrow> SimulationState \<Rightarrow> effects" where
  "simulationLoop ip wr now lastUpdate st =
     (if \<not> isPlaying st then \<lparr>dispatched = [], toasts = [], recalculations = []\<rparr>
      else
        (let deltaTimeMs = js_sub now lastUpdate;
             final = simulationLoop_entries ip wr now deltaTimeMs st (parcels st)
                       \<lparr>updatedParcels = parcels st, hasChanges = False, started = []\<rparr>
         in \<lparr>dispatched = (if hasChanges final then [UPDATE_ALL_PARCELS (updatedParcels final)] else []),
             toasts = [],
             recalculations = started final\<rparr>))"

text \<open>The store after one pass of the loop.\<close>

definition tick ::
  "interpolate \<Rightarrow> within_radius \<Rightarrow> jsnum \<Rightarrow> jsnum \<Rightarrow> SimulationState \<Rightarrow> SimulationState" where
  "tick ip wr now lastUpdate st = run st (simulationLoop ip wr now lastUpdate st)"

section \<open>Vocabulary of the statements\<close>

text \<open>
  The progress that \<^const>\<open>updateParcelPosition\<close> computes once a parcel is past its
  guard, as one expression over the parcel and its route.
\<close>

definition new_progress :: "SimulatedParcel \<Rightarrow> RouteResponse \<Rightarrow> jsnum \<Rightarrow> jsnum \<Rightarrow> jsnum" where
  "new_progress p r deltaTimeMs simulationSpeed =
     js_min (js_add (progress p)
       (js_div
          (js_mul (js_mul (speed p) simulationSpeed)
             (js_div (js_div (js_div deltaTimeMs (Fin 1000)) (Fin 60)) (Fin 60)))
          (totalDistanceKm r)))
       (Fin 1)"

text \<open>
  Collision detection as the specification words it: an incident qualifies when it is
  unresolved, its geofence contains the parcel's position and the parcel has not met it
  yet; the answer is the first qualifying incident in insertion order.
\<close>

definition qualifies :: "within_radius \<Rightarrow> SimulatedParcel \<Rightarrow> Incident \<Rightarrow> bool" where
  "qualifies wr p i \<longleftrightarrow>
     \<not> resolved i
     \<and> wr (currentPosition p) (position i) (js_div (radius i) (Fin 1000))
     \<and> incident_id i \<notin> set (affectedByIncidents p)"

definition detectCollision_spec ::
  "within_radius \<Rightarrow> SimulatedParcel \<Rightarrow> Incident js_map \<Rightarrow> Incident option" where
  "detectCollision_spec wr p incs = find (qualifies wr p) (map_values incs)"

subsection \<open>Concrete data\<close>

text \<open>
  Stand-ins for the two geometry functions, used in concrete instances only. The
  progress, state and arrival time that the engine computes do not depend on the first;
  the second places a point in a geofence when it is the centre itself.
\<close>

definition first_point :: interpolate where
  "first_point path t = (case path of [] \<Rightarrow> \<lparr>lat = Fin 0, lng = Fin 0\<rparr> | p # _ \<Rightarrow> p, Fin 0)"

definition same_point :: within_radius where
  "same_point a b r = (a = b)"

definition pdata1 :: ParcelResponse where
  "pdata1 = \<lparr>data_id = ''p1'', data_trackingCode = ''TRK-1'', currentState = ''PLANNED'',
     pickupLocation = ''h1'', deliveryLocation = ''h2'', senderName = None,
     recipientName = None, weightKg = None\<rparr>"

definition path2 :: "Position list" where
  "path2 = [\<lparr>lat = Fin 4.05, lng = Fin 9.7\<rparr>, \<lparr>lat = Fin 4.1, lng = Fin 9.8\<rparr>]"

definition route10 :: RouteResponse where
  "route10 = \<lparr>route_id = ''r1'', routeGeometry = ''LINESTRING(9.7 4.05, 9.8 4.1)'',
     totalDistanceKm = Fin 10, estimatedDurationMin = Fin 15\<rparr>"

text \<open>A route of length zero, as the route service may answer.\<close>

definition route0 :: RouteResponse where
  "route0 = route10\<lparr>totalDistanceKm := Fin 0\<rparr>"

definition planned10 :: SimulatedParcel where
  "planned10 = createSimulatedParcel (Fin 0) pdata1 route10 path2"

definition transit10 :: SimulatedParcel where
  "transit10 = startParcel (Fin 0) planned10"

definition transit0 :: SimulatedParcel where
  "transit0 = startParcel (Fin 0) (createSimulatedParcel (Fin 0) pdata1 route0 path2)"

definition delivered10 :: SimulatedParcel where
  "delivered10 = updateParcelPosition first_point (Fin 0) transit10 (Fin 900000) (Fin 1)"

definition incident_at_start :: "string \<Rightarrow> Incident" where
  "incident_at_start ident =
     \<lparr>incident_id = ident, incident_type = TRAFFIC,
      position = \<lparr>lat = Fin 4.05, lng = Fin 9.7\<rparr>, radius = Fin 200,
      affectedRouteIds = [], timestamp = Date (Fin 0), resolved = False,
      description = ''Incident: TRAFFIC''\<rparr>"

text \<open>Three incidents placed on the start of the path, the first one resolved afterwards.\<close>

definition store3 :: SimulationState where
  "store3 = foldl simulationReducer initialState
     [ADD_INCIDENT (incident_at_start ''a''), ADD_INCIDENT (incident_at_start ''b''),
      ADD_INCIDENT (incident_at_start ''c''), RESOLVE_INCIDENT ''a'']"

text \<open>
  The store after a parcel was added without a route (it is placed on the fallback
  position, where the three incidents are), and then after the hook started that parcel
  and playback began.
\<close>

definition store_unrouted :: SimulationState where
  "store_unrouted = run store3 (addParcel (\<lambda>g. []) (Fin 0) store3 pdata1 None)"

definition store_started :: SimulationState where
  "store_started = simulationReducer
     (run store_unrouted (useSimulation_startParcel (Fin 1) store_unrouted ''p1'')) PLAY"

text \<open>A store that holds one delivered parcel.\<close>

definition store_delivered :: SimulationState where
  "store_delivered = simulationReducer initialState (ADD_PARCEL delivered10)"

text \<open>
  A playing store with the parcel in transit and one unresolved incident centred on a
  given position.
\<close>

definition incident_where :: "Position \<Rightarrow> string \<Rightarrow> Incident" where
  "incident_where pos ident = (incident_at_start ident)\<lparr>position := pos\<rparr>"

definition store_arrival :: "Position \<Rightarrow> SimulationState" where
  "store_arrival pos = foldl simulationReducer initialState
     [ADD_INCIDENT (incident_where pos ''e''), ADD_PARCEL transit10, PLAY]"

section \<open>Auxiliary facts\<close>

lemma planned10_fields:
  "state planned10 = PLANNED" "route planned10 = Some route10" "routePath planned10 = path2"
  "progress planned10 = Fin 0" "speed planned10 = Fin 40" "actualArrival planned10 = None"
  "affectedByIncidents planned10 = []" "parcel_id planned10 = ''p1''"
  "currentPosition planned10 = \<lparr>lat = Fin 4.05, lng = Fin 9.7\<rparr>"
  by (simp_all add: planned10_def createSimulatedParcel_def BASE_SPEED_def path2_def pdata1_def)

lemma transit10_fields:
  "state transit10 = TRANSIT" "route transit10 = Some route10" "routePath transit10 = path2"
  "progress transit10 = Fin 0" "speed transit10 = Fin 40" "actualArrival transit10 = None"
  "affectedByIncidents transit10 = []" "parcel_id transit10 = ''p1''"
  "currentPosition transit10 = \<lparr>lat = Fin 4.05, lng = Fin 9.7\<rparr>"
  by (simp_all add: transit10_def startParcel_def planned10_fields)

lemma transit0_fields:
  "state transit0 = TRANSIT" "route transit0 = Some route0" "routePath transit0 = path2"
  "progress transit0 = Fin 0" "speed transit0 = Fin 40" "actualArrival transit0 = None"
  by (simp_all add: transit0_def startParcel_def createSimulatedParcel_def BASE_SPEED_def)

lemma advance_fields:
  assumes "state p = TRANSIT" "route p = Some r" "routePath p \<noteq> []"
  shows "progress (updateParcelPosition ip now p dt sp) = new_progress p r dt sp"
    and "state (updateParcelPosition ip now p dt sp) =
           (if js_ge (new_progress p r dt sp) (Fin 0.99) then DELIVERED else TRANSIT)"
    and "actualArrival (updateParcelPosition ip now p dt sp) =
           (if js_ge (new_progress p r dt sp) (Fin 0.99) then Some (Date now) else actualArrival p)"
  using assms
  by (simp_all add: updateParcelPosition_def new_progress_def Let_def split: prod.splits)

lemma delivered10_fields:
  "state delivered10 = DELIVERED" "progress delivered10 = Fin 1" "parcel_id delivered10 = ''p1''"
  "route delivered10 = Some route10" "routePath delivered10 = path2"
  by (simp_all add: delivered10_def updateParcelPosition_def transit10_fields route10_def
      path2_def first_point_def)

lemma store3_incidents:
  "incidents store3 = [(''a'', (incident_at_start ''a'')\<lparr>resolved := True\<rparr>),
     (''b'', incident_at_start ''b''), (''c'', incident_at_start ''c'')]"
  by (simp add: store3_def initialState_def incident_at_start_def)

lemma store3_fields: "parcels store3 = []" "hubs store3 = []" "isPlaying store3 = False"
  by (simp_all add: store3_def initialState_def)

lemma route10_is_linestring:
  "string_includes (toUpperCase (routeGeometry route10)) ''LINESTRING''"
  by (simp add: route10_def toUpperCase_def string_includes_def sublist_code(3))

lemma store_delivered_parcels: "parcels store_delivered = [(''p1'', delivered10)]"
  by (simp add: store_delivered_def initialState_def delivered10_fields)

lemma loop_is_find: "checkIncidentCollision_loop wr p xs = find (qualifies wr p) xs"
  by (induction xs) (simp_all add: qualifies_def)

lemma spread_all_fields: "spread existing (all_fields p) = p"
  by (simp add: spread_def all_fields_def spread_field_def)

lemma store_arrival_fields:
  "parcels (store_arrival pos) = [(''p1'', transit10)]"
  "incidents (store_arrival pos) = [(''e'', incident_where pos ''e'')]"
  "isPlaying (store_arrival pos) = True" "store_speed (store_arrival pos) = Fin 1"
  by (simp_all add: store_arrival_def initialState_def transit10_fields incident_where_def
      incident_at_start_def)

text \<open>
  The pass of the loop, 900000 ms after the last one, over the store whose incident sits
  where the interpolation puts the parcel at progress 1.
\<close>

lemma arrival_pass:
  fixes ip :: interpolate
  defines "u \<equiv> updateParcelPosition ip (Fin 900000) transit10 (Fin 900000) (Fin 1)"
  defines "pos \<equiv> fst (ip path2 (Fin 1))"
  shows "simulationLoop ip same_point (Fin 900000) (Fin 0) (store_arrival pos)
     = \<lparr>dispatched = [UPDATE_ALL_PARCELS [(''p1'', markParcelIncident u ''e'')]], toasts = [],
        recalculations = [(markParcelIncident u ''e'', incident_where pos ''e'')]\<rparr>"
proof -
  have p: "currentPosition u = pos" "affectedByIncidents u = []"
    unfolding u_def pos_def
    by (simp_all add: updateParcelPosition_def transit10_fields route10_def path2_def Let_def
        split: prod.splits)
  have hit: "checkIncidentCollision same_point u (incidents (store_arrival pos))
      = Some (incident_where pos ''e'')"
    by (simp add: checkIncidentCollision_def map_values_def store_arrival_fields p
        same_point_def incident_where_def incident_at_start_def)
  have ident: "incident_id (incident_where pos ''e'') = ''e''"
    by (simp add: incident_where_def incident_at_start_def)
  show ?thesis
    using hit ident unfolding u_def
    by (simp add: simulationLoop_def store_arrival_fields js_sub_def Let_def transit10_fields)
qed

section \<open>Progress of a parcel in transit\<close>

text \<open>
  C1 asks that \<open>updateParcelPosition\<close>, on a parcel in \<open>TRANSIT\<close> with a route and a
  non-empty path and for every time step and multiplier that are not negative, returns a
  progress that is at least the progress it received and lies in \<open>[0,1]\<close>. On a route
  of total distance zero, a time step of zero milliseconds at multiplier 1 takes the
  progress from 0 to NaN: the result is neither at least 0 nor at most 1, and the parcel
  stays in \<open>TRANSIT\<close> with it.
\<close>

theorem advance_progress_lost_on_zero_distance:
  "state transit0 = TRANSIT \<and> route transit0 = Some route0 \<and> routePath transit0 \<noteq> []
   \<and> totalDistanceKm route0 = Fin 0 \<and> speed transit0 = Fin 40 \<and> progress transit0 = Fin 0
   \<and> js_ge (Fin 0) (Fin 0) \<and> js_ge (Fin 1) (Fin 0)
   \<and> progress (updateParcelPosition ip now transit0 (Fin 0) (Fin 1)) = NaN
   \<and> \<not> js_ge (progress (updateParcelPosition ip now transit0 (Fin 0) (Fin 1)))
          (progress transit0)
   \<and> \<not> js_ge (progress (updateParcelPosition ip now transit0 (Fin 0) (Fin 1))) (Fin 0)
   \<and> \<not> js_ge (Fin 1) (progress (updateParcelPosition ip now transit0 (Fin 0) (Fin 1)))
   \<and> state (updateParcelPosition ip now transit0 (Fin 0) (Fin 1)) = TRANSIT"
  by (simp add: transit0_fields route0_def route10_def path2_def
      advance_fields new_progress_def inf_of_sign_def)

theorem advance_progress_lost_on_zero_distance_witness:
  "progress (updateParcelPosition first_point (Fin 0) transit0 (Fin 0) (Fin 1)) = NaN
   \<and> \<not> js_ge (progress (updateParcelPosition first_point (Fin 0) transit0 (Fin 0) (Fin 1)))
          (progress transit0)"
  using advance_progress_lost_on_zero_distance [of first_point "Fin 0"] by simp

section \<open>The delivery threshold\<close>

text \<open>
  C2. For a parcel past the guard of \<open>updateParcelPosition\<close>, the result is \<open>DELIVERED\<close>
  exactly when the newly computed progress is at least 0.99; then \<open>actualArrival\<close> is
  stamped with the current time, and otherwise the parcel stays in \<open>TRANSIT\<close> with its
  \<open>actualArrival\<close> untouched. On the parcel with speed 40, route length 10 and progress
  0, one call with 900000 ms at multiplier 1 gives progress exactly 1 and \<open>DELIVERED\<close>;
  890100 ms gives 0.989 and stays \<open>TRANSIT\<close>, 891900 ms gives 0.991 and is \<open>DELIVERED\<close>.
\<close>

theorem advance_delivery_threshold:
  "(state p = TRANSIT \<and> route p \<noteq> None \<and> routePath p \<noteq> [] \<longrightarrow>
      (state (updateParcelPosition ip now p dt sp) = DELIVERED
         \<longleftrightarrow> js_ge (progress (updateParcelPosition ip now p dt sp)) (Fin 0.99))
      \<and> (js_ge (progress (updateParcelPosition ip now p dt sp)) (Fin 0.99)
           \<longrightarrow> actualArrival (updateParcelPosition ip now p dt sp) = Some (Date now))
      \<and> (\<not> js_ge (progress (updateParcelPosition ip now p dt sp)) (Fin 0.99)
           \<longrightarrow> state (updateParcelPosition ip now p dt sp) = TRANSIT
             \<and> actualArrival (updateParcelPosition ip now p dt sp) = actualArrival p))
   \<and> speed transit10 = Fin 40 \<and> totalDistanceKm route10 = Fin 10
   \<and> route transit10 = Some route10 \<and> progress transit10 = Fin 0
   \<and> progress (updateParcelPosition ip now transit10 (Fin 900000) (Fin 1)) = Fin 1
   \<and> state (updateParcelPosition ip now transit10 (Fin 900000) (Fin 1)) = DELIVERED
   \<and> progress (updateParcelPosition ip now transit10 (Fin 890100) (Fin 1)) = Fin 0.989
   \<and> state (updateParcelPosition ip now transit10 (Fin 890100) (Fin 1)) = TRANSIT
   \<and> progress (updateParcelPosition ip now transit10 (Fin 891900) (Fin 1)) = Fin 0.991
   \<and> state (updateParcelPosition ip now transit10 (Fin 891900) (Fin 1)) = DELIVERED"
proof -
  have general: "state p = TRANSIT \<and> route p \<noteq> None \<and> routePath p \<noteq> [] \<longrightarrow>
      (state (updateParcelPosition ip now p dt sp) = DELIVERED
         \<longleftrightarrow> js_ge (progress (updateParcelPosition ip now p dt sp)) (Fin 0.99))
      \<and> (js_ge (progress (updateParcelPosition ip now p dt sp)) (Fin 0.99)
           \<longrightarrow> actualArrival (updateParcelPosition ip now p dt sp) = Some (Date now))
      \<and> (\<not> js_ge (progress (updateParcelPosition ip now p dt sp)) (Fin 0.99)
           \<longrightarrow> state (updateParcelPosition ip now p dt sp) = TRANSIT
             \<and> actualArrival (updateParcelPosition ip now p dt sp) = actualArrival p)"
    by (auto simp: advance_fields split: if_splits)
  have scenario:
    "progress (updateParcelPosition ip now transit10 (Fin 900000) (Fin 1)) = Fin 1"
    "state (updateParcelPosition ip now transit10 (Fin 900000) (Fin 1)) = DELIVERED"
    "progress (updateParcelPosition ip now transit10 (Fin 890100) (Fin 1)) = Fin 0.989"
    "state (updateParcelPosition ip now transit10 (Fin 890100) (Fin 1)) = TRANSIT"
    "progress (updateParcelPosition ip now transit10 (Fin 891900) (Fin 1)) = Fin 0.991"
    "state (updateParcelPosition ip now transit10 (Fin 891900) (Fin 1)) = DELIVERED"
    by (simp_all add: transit10_fields route10_def path2_def advance_fields new_progress_def)
  from general scenario show ?thesis
    by (simp add: transit10_fields route10_def)
qed

theorem advance_delivery_threshold_witness:
  "state transit10 = TRANSIT \<and> route transit10 \<noteq> None \<and> routePath transit10 \<noteq> []
   \<and> state (updateParcelPosition first_point (Fin 7) transit10 (Fin 900000) (Fin 1)) = DELIVERED
   \<and> actualArrival (updateParcelPosition first_point (Fin 7) transit10 (Fin 900000) (Fin 1))
       = Some (Date (Fin 7))"
  using advance_delivery_threshold [where p = transit10 and ip = first_point and now = "Fin 7"
      and dt = "Fin 900000" and sp = "Fin 1"]
  by (simp add: transit10_fields path2_def)

section \<open>Collision detection\<close>

text \<open>
  C3. \<open>checkIncidentCollision\<close> returns the first incident, in the insertion order of the
  map, that is unresolved, whose geofence contains the parcel's position and whose id is
  not yet in the parcel's \<open>affectedByIncidents\<close>; it returns nothing exactly when no
  incident meets the three conditions. So it never returns a resolved incident nor one
  the parcel has already met, and of several qualifying incidents it returns the one
  inserted first.
\<close>

theorem collision_is_first_qualifying:
  "checkIncidentCollision wr p incs = detectCollision_spec wr p incs
   \<and> (checkIncidentCollision wr p incs = None
        \<longleftrightarrow> (\<forall>i \<in> set (map_values incs). \<not> qualifies wr p i))
   \<and> (\<forall>i. checkIncidentCollision wr p incs = Some i \<longrightarrow>
        \<not> resolved i
        \<and> incident_id i \<notin> set (affectedByIncidents p)
        \<and> wr (currentPosition p) (position i) (js_div (radius i) (Fin 1000))
        \<and> (\<exists>n < length incs. snd (incs ! n) = i
              \<and> (\<forall>m < n. \<not> qualifies wr p (snd (incs ! m)))))"
proof -
  have eq: "checkIncidentCollision wr p incs = find (qualifies wr p) (map snd incs)"
    by (simp add: checkIncidentCollision_def map_values_def loop_is_find)
  have none: "checkIncidentCollision wr p incs = None
        \<longleftrightarrow> (\<forall>i \<in> set (map_values incs). \<not> qualifies wr p i)"
    by (simp add: eq map_values_def find_None_iff)
  have "\<not> resolved i
        \<and> incident_id i \<notin> set (affectedByIncidents p)
        \<and> wr (currentPosition p) (position i) (js_div (radius i) (Fin 1000))
        \<and> (\<exists>n < length incs. snd (incs ! n) = i
              \<and> (\<forall>m < n. \<not> qualifies wr p (snd (incs ! m))))"
    if "checkIncidentCollision wr p incs = Some i" for i
  proof -
    from that eq obtain n where n: "n < length incs" "qualifies wr p (map snd incs ! n)"
      "i = map snd incs ! n" "\<forall>m<n. \<not> qualifies wr p (map snd incs ! m)"
      by (auto simp: find_Some_iff)
    then have "qualifies wr p i" "snd (incs ! n) = i" "\<forall>m<n. \<not> qualifies wr p (snd (incs ! m))"
      by simp_all
    with n(1) show ?thesis
      unfolding qualifies_def by blast
  qed
  with eq none show ?thesis
    by (simp add: detectCollision_spec_def map_values_def)
qed

text \<open>
  Incidents \<open>a\<close>, \<open>b\<close>, \<open>c\<close> all sit on the parcel's position and \<open>a\<close> is resolved:
  the parcel meets \<open>b\<close>; once \<open>b\<close> is recorded it meets \<open>c\<close>; once both are, nothing.
\<close>

theorem collision_is_first_qualifying_witness:
  "checkIncidentCollision same_point transit10 (incidents store3) = Some (incident_at_start ''b'')
   \<and> checkIncidentCollision same_point (markParcelIncident transit10 ''b'') (incidents store3)
       = Some (incident_at_start ''c'')
   \<and> checkIncidentCollision same_point
        (markParcelIncident (markParcelIncident transit10 ''b'') ''c'') (incidents store3) = None"
proof -
  have "checkIncidentCollision same_point q (incidents store3)
      = detectCollision_spec same_point q (incidents store3)" for q
    using collision_is_first_qualifying [of same_point q "incidents store3"] by (rule conjunct1)
  then show ?thesis
    by (simp add: store3_incidents detectCollision_spec_def map_values_def qualifies_def
        same_point_def incident_at_start_def markParcelIncident_def transit10_fields)
qed

section \<open>A route of length zero\<close>

text \<open>
  C4 asks that a route of total distance zero means no movement. The code divides by
  the distance unguarded: on such a route a tick of 16 ms takes the progress from 0 to 1
  and delivers the parcel, and a tick of 0 ms makes the progress NaN.
\<close>

theorem zero_distance_unguarded:
  "state transit0 = TRANSIT \<and> route transit0 = Some route0 \<and> totalDistanceKm route0 = Fin 0
   \<and> progress transit0 = Fin 0
   \<and> progress (updateParcelPosition ip now transit0 (Fin 16) (Fin 1)) = Fin 1
   \<and> state (updateParcelPosition ip now transit0 (Fin 16) (Fin 1)) = DELIVERED
   \<and> progress (updateParcelPosition ip now transit0 (Fin 0) (Fin 1)) = NaN"
  by (simp add: transit0_fields route0_def route10_def path2_def
      advance_fields new_progress_def inf_of_sign_def)

theorem zero_distance_unguarded_witness:
  "progress (updateParcelPosition first_point (Fin 0) transit0 (Fin 16) (Fin 1)) = Fin 1
   \<and> state (updateParcelPosition first_point (Fin 0) transit0 (Fin 16) (Fin 1)) = DELIVERED
   \<and> progress (updateParcelPosition first_point (Fin 0) transit0 (Fin 0) (Fin 1)) = NaN"
  using zero_distance_unguarded [of first_point "Fin 0"] by simp

section \<open>Moving a parcel to a new route\<close>

text \<open>
  C5, as the code has it. \<open>updateParcelRoute\<close> keeps the progress exactly, and with it the
  id, tracking code, parcel data, path index, start time, actual arrival, speed and the
  list of incidents met. It sets the route and the path to the new ones, the position to
  the interpolation of the new path at the kept progress, the estimated arrival from the
  new route's duration, and the state to \<open>TRANSIT\<close>.
\<close>

theorem reanchor_frame:
  "progress (updateParcelRoute ip now p r path) = progress p
   \<and> parcel_id (updateParcelRoute ip now p r path) = parcel_id p
   \<and> trackingCode (updateParcelRoute ip now p r path) = trackingCode p
   \<and> parcelData (updateParcelRoute ip now p r path) = parcelData p
   \<and> pathIndex (updateParcelRoute ip now p r path) = pathIndex p
   \<and> startTime (updateParcelRoute ip now p r path) = startTime p
   \<and> actualArrival (updateParcelRoute ip now p r path) = actualArrival p
   \<and> speed (updateParcelRoute ip now p r path) = speed p
   \<and> affectedByIncidents (updateParcelRoute ip now p r path) = affectedByIncidents p
   \<and> state (updateParcelRoute ip now p r path) = TRANSIT
   \<and> route (updateParcelRoute ip now p r path) = Some r
   \<and> routePath (updateParcelRoute ip now p r path) = path
   \<and> currentPosition (updateParcelRoute ip now p r path) = fst (ip path (progress p))
   \<and> estimatedArrival (updateParcelRoute ip now p r path) =
       Some (new_Date (js_add now (js_mul (js_mul (estimatedDurationMin r) (Fin 60)) (Fin 1000))))"
  by (simp add: updateParcelRoute_def split: prod.splits)

text \<open>A parcel stopped by incident \<open>b\<close> at progress 0 is moved to a route.\<close>

theorem reanchor_frame_witness:
  "progress (updateParcelRoute first_point (Fin 0) (markParcelIncident transit10 ''b'')
       route10 path2) = Fin 0
   \<and> affectedByIncidents (updateParcelRoute first_point (Fin 0)
       (markParcelIncident transit10 ''b'') route10 path2) = [''b'']
   \<and> state (updateParcelRoute first_point (Fin 0) (markParcelIncident transit10 ''b'')
       route10 path2) = TRANSIT
   \<and> currentPosition (updateParcelRoute first_point (Fin 0)
       (markParcelIncident transit10 ''b'') route10 path2) = \<lparr>lat = Fin 4.05, lng = Fin 9.7\<rparr>"
  using reanchor_frame [of first_point "Fin 0" "markParcelIncident transit10 ''b''" route10 path2]
  by (simp add: markParcelIncident_def transit10_fields first_point_def path2_def)

text \<open>
  C5 as it is worded counts the state among the unchanged fields: a parcel stopped by an
  incident comes back in \<open>TRANSIT\<close>.
\<close>

theorem reanchor_state_counterexample:
  "state (markParcelIncident transit10 ''b'') = INCIDENT
   \<and> state (updateParcelRoute first_point (Fin 0) (markParcelIncident transit10 ''b'') route10 path2)
       \<noteq> state (markParcelIncident transit10 ''b'')"
  by (simp add: markParcelIncident_def updateParcelRoute_def split: prod.splits)

section \<open>Parcels that do not move\<close>

text \<open>
  C6. On a parcel whose state is \<open>PLANNED\<close>, \<open>INCIDENT\<close> or \<open>DELIVERED\<close>, or whose path
  is empty, \<open>updateParcelPosition\<close> returns the parcel itself, whatever the time step
  and the multiplier, and so does any number of repeated calls.
\<close>

theorem advance_noop:
  "state p \<in> {PLANNED, INCIDENT, DELIVERED} \<or> routePath p = [] \<Longrightarrow>
     updateParcelPosition ip now p dt sp = p
     \<and> ((\<lambda>q. updateParcelPosition ip now' q dt' sp') ^^ n) p = p"
proof -
  assume g: "state p \<in> {PLANNED, INCIDENT, DELIVERED} \<or> routePath p = []"
  have once: "updateParcelPosition ip' t p d s = p" for ip' t d s
    using g by (auto simp: updateParcelPosition_def)
  have "((\<lambda>q. updateParcelPosition ip now' q dt' sp') ^^ n) p = p"
    by (induction n) (simp_all add: once)
  with once show ?thesis by simp
qed

theorem advance_noop_witness:
  "state delivered10 \<in> {PLANNED, INCIDENT, DELIVERED}
   \<and> updateParcelPosition first_point (Fin 0) delivered10 (Fin 900000) (Fin 1) = delivered10
   \<and> ((\<lambda>q. updateParcelPosition first_point (Fin 0) q (Fin 900000) (Fin 1)) ^^ 3) delivered10
       = delivered10"
  using advance_noop [where p = delivered10 and ip = first_point and now = "Fin 0"
      and dt = "Fin 900000" and sp = "Fin 1" and now' = "Fin 0" and dt' = "Fin 900000"
      and sp' = "Fin 1" and n = 3]
  by (simp add: delivered10_fields)

section \<open>Actions on an unknown id\<close>

text \<open>
  C10. When no parcel has the given id, \<open>UPDATE_PARCEL\<close> returns a store equal to the
  one it received, and so does \<open>RESOLVE_INCIDENT\<close> when no incident has the id: both
  maps hold the entries they held, no entry is created and nothing is raised.
\<close>

theorem unknown_id_ignored:
  "(ident \<notin> fst ` set (parcels st) \<longrightarrow>
      simulationReducer st (UPDATE_PARCEL ident updates) = st
      \<and> parcels (simulationReducer st (UPDATE_PARCEL ident updates)) = parcels st
      \<and> incidents (simulationReducer st (UPDATE_PARCEL ident updates)) = incidents st)
   \<and> (ident \<notin> fst ` set (incidents st) \<longrightarrow>
      simulationReducer st (RESOLVE_INCIDENT ident) = st
      \<and> parcels (simulationReducer st (RESOLVE_INCIDENT ident)) = parcels st
      \<and> incidents (simulationReducer st (RESOLVE_INCIDENT ident)) = incidents st)"
  by (simp add: map_of_eq_None_iff [THEN iffD2])

theorem unknown_id_ignored_witness:
  "''p2'' \<notin> fst ` set (parcels store_delivered)
   \<and> simulationReducer store_delivered (UPDATE_PARCEL ''p2'' (all_fields transit10))
       = store_delivered
   \<and> ''d'' \<notin> fst ` set (incidents store3)
   \<and> simulationReducer store3 (RESOLVE_INCIDENT ''d'') = store3"
  using unknown_id_ignored [of "''p2''" store_delivered "all_fields transit10"]
    unknown_id_ignored [of "''d''" store3 "all_fields transit10"]
  by (simp add: store_delivered_parcels store3_incidents)

section \<open>Route geometry that does not decode\<close>

text \<open>
  C9. When the decoder yields fewer than two points for the geometry of the route given
  to \<open>addParcel\<close> (none at all included), the handler dispatches no action, so the store
  stays as it was and no parcel is added, and it shows exactly one toast, an error.
\<close>

theorem short_geometry_aborts:
  "length (parseWKTLineString (routeGeometry r)) < 2 \<Longrightarrow>
     dispatched (addParcel parseWKTLineString now st pdata (Some r)) = []
     \<and> run st (addParcel parseWKTLineString now st pdata (Some r)) = st
     \<and> (\<exists>t. toasts (addParcel parseWKTLineString now st pdata (Some r)) = [t] \<and> is_error t)"
  by (simp add: addParcel_def run_def Let_def)

text \<open>A decoder that yields no point, and one that yields a single point.\<close>

theorem short_geometry_aborts_witness:
  "length ((\<lambda>g. [] :: Position list) (routeGeometry route10)) < 2
   \<and> dispatched (addParcel (\<lambda>g. []) (Fin 0) store3 pdata1 (Some route10)) = []
   \<and> run store3 (addParcel (\<lambda>g. []) (Fin 0) store3 pdata1 (Some route10)) = store3
   \<and> toasts (addParcel (\<lambda>g. []) (Fin 0) store3 pdata1 (Some route10))
       = [Error_wkt_parsing_failed]
   \<and> length ((\<lambda>g. [\<lparr>lat = Fin 4.05, lng = Fin 9.7\<rparr>]) (routeGeometry route10)) < 2
   \<and> run store3 (addParcel (\<lambda>g. [\<lparr>lat = Fin 4.05, lng = Fin 9.7\<rparr>]) (Fin 0) store3 pdata1
        (Some route10)) = store3
   \<and> toasts (addParcel (\<lambda>g. [\<lparr>lat = Fin 4.05, lng = Fin 9.7\<rparr>]) (Fin 0) store3 pdata1
        (Some route10)) = [Error_fewer_than_2_points]"
proof -
  have shown:
    "toasts (addParcel (\<lambda>g. []) (Fin 0) store3 pdata1 (Some route10))
       = [Error_wkt_parsing_failed]"
    "toasts (addParcel (\<lambda>g. [\<lparr>lat = Fin 4.05, lng = Fin 9.7\<rparr>]) (Fin 0) store3 pdata1
        (Some route10)) = [Error_fewer_than_2_points]"
    using route10_is_linestring by (simp_all add: addParcel_def route10_def)
  with short_geometry_aborts [of "\<lambda>g. []" route10 "Fin 0" store3 pdata1]
    short_geometry_aborts [of "\<lambda>g. [\<lparr>lat = Fin 4.05, lng = Fin 9.7\<rparr>]" route10 "Fin 0"
      store3 pdata1]
  show ?thesis by simp
qed

section \<open>Parcels without a route\<close>

text \<open>
  C7 asks that a parcel without a route stays \<open>PLANNED\<close> under every operation. The
  parcel added without a route is \<open>PLANNED\<close>; the hook's \<open>startParcel\<close> puts it in
  \<open>TRANSIT\<close>, still without a route; the next pass of the loop, with an unresolved
  incident on its position, puts it in \<open>INCIDENT\<close>.
\<close>

theorem unrouted_parcel_started:
  "map (\<lambda>(k, q). (k, state q, route q, routePath q)) (parcels store_unrouted)
     = [(''p1'', PLANNED, None, [])]
   \<and> map (\<lambda>(k, q). (k, state q, route q, routePath q)) (parcels store_started)
     = [(''p1'', TRANSIT, None, [])]
   \<and> map (\<lambda>(k, q). (k, state q, route q, routePath q))
       (parcels (tick ip same_point (Fin 17) (Fin 1) store_started))
     = [(''p1'', INCIDENT, None, [])]"
  by (simp add: store_started_def store_unrouted_def run_def addParcel_def store3_fields
      pdata1_def useSimulation_startParcel_def startParcel_def all_fields_def spread_def
      spread_field_def tick_def simulationLoop_def updateParcelPosition_def
      checkIncidentCollision_def map_values_def store3_incidents same_point_def
      incident_at_start_def markParcelIncident_def js_sub_def Let_def)

theorem unrouted_parcel_started_witness:
  "map (\<lambda>(k, q). (k, state q, route q, routePath q))
       (parcels (tick first_point same_point (Fin 17) (Fin 1) store_started))
     = [(''p1'', INCIDENT, None, [])]"
  using unrouted_parcel_started [of first_point] by simp

section \<open>State transitions\<close>

text \<open>
  C8 asks that \<open>DELIVERED\<close> is final and that no parcel moves backwards. Take the
  playing store with the parcel in \<open>TRANSIT\<close> and an unresolved incident centred
  where the path is at progress 1. The pass of the loop 900000 ms later delivers the
  parcel, stamps its arrival, runs the collision check on the delivered parcel and
  stores it in \<open>INCIDENT\<close>, with progress 1 and the arrival time; the recalculation
  the pass has started, once answered, stores it in \<open>TRANSIT\<close>. And on the store with
  a delivered parcel, the hook's \<open>startParcel\<close> stores that parcel in \<open>TRANSIT\<close>.
\<close>

theorem delivered_parcel_leaves_delivered:
  "map (\<lambda>(k, q). (k, state q)) (parcels (store_arrival (fst (ip path2 (Fin 1)))))
       = [(''p1'', TRANSIT)]
   \<and> state (updateParcelPosition ip (Fin 900000) transit10 (Fin 900000) (Fin 1)) = DELIVERED
   \<and> map (\<lambda>(k, q). (k, state q, progress q, actualArrival q))
        (parcels (tick ip same_point (Fin 900000) (Fin 0) (store_arrival (fst (ip path2 (Fin 1))))))
       = [(''p1'', INCIDENT, Fin 1, Some (Date (Fin 900000)))]
   \<and> recalculations (simulationLoop ip same_point (Fin 900000) (Fin 0)
          (store_arrival (fst (ip path2 (Fin 1)))))
       = [(markParcelIncident
             (updateParcelPosition ip (Fin 900000) transit10 (Fin 900000) (Fin 1)) ''e'',
           incident_where (fst (ip path2 (Fin 1))) ''e'')]
   \<and> map (\<lambda>(k, q). (k, state q, progress q, actualArrival q))
        (parcels (run (tick ip same_point (Fin 900000) (Fin 0)
             (store_arrival (fst (ip path2 (Fin 1)))))
           (handleIncidentRecalculation parse ip later
              (markParcelIncident
                 (updateParcelPosition ip (Fin 900000) transit10 (Fin 900000) (Fin 1)) ''e'')
              (incident_where (fst (ip path2 (Fin 1))) ''e'') (Some newRoute))))
       = [(''p1'', TRANSIT, Fin 1, Some (Date (Fin 900000)))]
   \<and> map (\<lambda>(k, q). (k, state q)) (parcels store_delivered) = [(''p1'', DELIVERED)]
   \<and> map (\<lambda>(k, q). (k, state q))
        (parcels (run store_delivered (useSimulation_startParcel (Fin 1) store_delivered ''p1'')))
       = [(''p1'', TRANSIT)]"
proof -
  let ?u = "updateParcelPosition ip (Fin 900000) transit10 (Fin 900000) (Fin 1)"
  let ?pos = "fst (ip path2 (Fin 1))"
  have u: "state ?u = DELIVERED" "progress ?u = Fin 1"
    "actualArrival ?u = Some (Date (Fin 900000))" "parcel_id ?u = ''p1''"
    "route ?u = Some route10"
    by (simp_all add: updateParcelPosition_def transit10_fields route10_def path2_def Let_def
        split: prod.splits)
  have stored: "parcels (tick ip same_point (Fin 900000) (Fin 0) (store_arrival ?pos))
      = [(''p1'', markParcelIncident ?u ''e'')]"
    using arrival_pass [of ip] by (simp add: tick_def run_def)
  have pass: "map (\<lambda>(k, q). (k, state q, progress q, actualArrival q))
        (parcels (tick ip same_point (Fin 900000) (Fin 0) (store_arrival ?pos)))
       = [(''p1'', INCIDENT, Fin 1, Some (Date (Fin 900000)))]"
    by (simp add: stored markParcelIncident_def u)
  have started: "recalculations (simulationLoop ip same_point (Fin 900000) (Fin 0)
          (store_arrival ?pos)) = [(markParcelIncident ?u ''e'', incident_where ?pos ''e'')]"
    using arrival_pass [of ip] by simp
  have answered: "map (\<lambda>(k, q). (k, state q, progress q, actualArrival q))
        (parcels (run (tick ip same_point (Fin 900000) (Fin 0) (store_arrival ?pos))
           (handleIncidentRecalculation parse ip later (markParcelIncident ?u ''e'')
              (incident_where ?pos ''e'') (Some newRoute))))
       = [(''p1'', TRANSIT, Fin 1, Some (Date (Fin 900000)))]"
    by (simp add: stored run_def handleIncidentRecalculation_def markParcelIncident_def u
        Let_def spread_all_fields updateParcelRoute_def split: prod.splits)
  have restart: "map (\<lambda>(k, q). (k, state q)) (parcels store_delivered) = [(''p1'', DELIVERED)]"
    "map (\<lambda>(k, q). (k, state q))
        (parcels (run store_delivered (useSimulation_startParcel (Fin 1) store_delivered ''p1'')))
       = [(''p1'', TRANSIT)]"
    by (simp_all add: store_delivered_parcels delivered10_fields run_def
        useSimulation_startParcel_def startParcel_def all_fields_def spread_def spread_field_def)
  have before: "map (\<lambda>(k, q). (k, state q)) (parcels (store_arrival ?pos)) = [(''p1'', TRANSIT)]"
    by (simp add: store_arrival_fields transit10_fields)
  from before u(1) pass started answered restart show ?thesis
    by simp
qed

text \<open>The same with the stand-in interpolation, which keeps the parcel on the first point.\<close>

theorem delivered_parcel_leaves_delivered_witness:
  "map (\<lambda>(k, q). (k, state q, progress q, actualArrival q))
        (parcels (tick first_point same_point (Fin 900000) (Fin 0)
           (store_arrival \<lparr>lat = Fin 4.05, lng = Fin 9.7\<rparr>)))
       = [(''p1'', INCIDENT, Fin 1, Some (Date (Fin 900000)))]
   \<and> map (\<lambda>(k, q). (k, state q))
        (parcels (run store_delivered (useSimulation_startParcel (Fin 1) store_delivered ''p1'')))
       = [(''p1'', TRANSIT)]"
  using delivered_parcel_leaves_delivered [of first_point "\<lambda>g. path2" "Fin 900001" route10]
  by (simp add: first_point_def path2_def)

end
